theory Spec2Isabelle
  imports Complex_Main
begin

section \<open>Python values\<close>

text \<open>
  The program is the Python module \<^verbatim>\<open>equgrad.py\<close>: a base class
  \<^verbatim>\<open>AlgebraicObject\<close> and six subclasses, with the methods \<^verbatim>\<open>simplify\<close>,
  \<^verbatim>\<open>factor\<close> and \<^verbatim>\<open>evaluate\<close>. Python is dynamically typed and the methods return
  objects, numbers and \<^verbatim>\<open>None\<close> alike, so the embedding has one type of values.

  Modelling decisions:
  \<^item> a \<^verbatim>\<open>float\<close> is a \<open>real\<close> and a \<^verbatim>\<open>complex\<close> a \<open>complex\<close>: rounding,
    infinities and NaN are outside the model. The overflow that \<^verbatim>\<open>**\<close> reports as
    \<^verbatim>\<open>OverflowError\<close> is in the model;
  \<^item> a \<^verbatim>\<open>str\<close> is the list of its code points;
  \<^item> a \<^verbatim>\<open>Symbol\<close> carries the identity of its object: the class defines neither
    \<^verbatim>\<open>__eq__\<close> nor \<^verbatim>\<open>__hash__\<close>, so as a dictionary key a symbol is its identity,
    not its name. No other identity is observed by the code;
  \<^item> an exception is a value \<open>Inl e\<close>; a loop that may run forever returns an option;
  \<^item> the module is read as if its two first imports were swapped: as written,
    \<^verbatim>\<open>from __future__ import annotations\<close> is not the first statement and the file
    is rejected when it is compiled.
\<close>

type_synonym pystr = "nat list"

definition str :: "string \<Rightarrow> pystr" where
  "str s = map of_char s"

datatype error =
    InvalidSymbolName
  | AttributeError
  | KeyError
  | IndexError
  | TypeError
  | ZeroDivisionError
  | OverflowError

datatype val =
    PyNone
  | PyInt int
  | PyFloat real
  | PyComplex complex
  | Number val
  | Symbol nat pystr
  | SumType "val list"
  | ProductType "val list"
  | QuotientType val val
  | PowType val val

text \<open>\<^verbatim>\<open>isinstance(v, AlgebraicObject)\<close>, and \<^verbatim>\<open>type(v) == SumType\<close>.\<close>

fun is_algebraic :: "val \<Rightarrow> bool" where
  "is_algebraic PyNone = False"
| "is_algebraic (PyInt n) = False"
| "is_algebraic (PyFloat x) = False"
| "is_algebraic (PyComplex z) = False"
| "is_algebraic v = True"

fun is_SumType :: "val \<Rightarrow> bool" where
  "is_SumType (SumType vs) = True"
| "is_SumType v = False"

section \<open>Python arithmetic on numbers\<close>

text \<open>
  The binary operators of \<^verbatim>\<open>int\<close>, \<^verbatim>\<open>float\<close> and \<^verbatim>\<open>complex\<close>: the operands are
  coerced to the wider of the two types; an operand that is not a number (\<^verbatim>\<open>None\<close>,
  or an object of this module, none of which defines a reflected operator) raises
  \<^verbatim>\<open>TypeError\<close>.
\<close>

fun arith ::
  "(int \<Rightarrow> int \<Rightarrow> error + val) \<Rightarrow> (real \<Rightarrow> real \<Rightarrow> error + val) \<Rightarrow>
   (complex \<Rightarrow> complex \<Rightarrow> error + val) \<Rightarrow> val \<Rightarrow> val \<Rightarrow> error + val" where
  "arith fi fr fc (PyInt a) (PyInt b) = fi a b"
| "arith fi fr fc (PyInt a) (PyFloat b) = fr (of_int a) b"
| "arith fi fr fc (PyInt a) (PyComplex b) = fc (of_int a) b"
| "arith fi fr fc (PyFloat a) (PyInt b) = fr a (of_int b)"
| "arith fi fr fc (PyFloat a) (PyFloat b) = fr a b"
| "arith fi fr fc (PyFloat a) (PyComplex b) = fc (of_real a) b"
| "arith fi fr fc (PyComplex a) (PyInt b) = fc a (of_int b)"
| "arith fi fr fc (PyComplex a) (PyFloat b) = fc a (of_real b)"
| "arith fi fr fc (PyComplex a) (PyComplex b) = fc a b"
| "arith fi fr fc x y = Inl TypeError"

definition int_add :: "int \<Rightarrow> int \<Rightarrow> error + val" where
  "int_add a b = Inr (PyInt (a + b))"

definition float_add :: "real \<Rightarrow> real \<Rightarrow> error + val" where
  "float_add a b = Inr (PyFloat (a + b))"

definition complex_add :: "complex \<Rightarrow> complex \<Rightarrow> error + val" where
  "complex_add a b = Inr (PyComplex (a + b))"

text \<open>True division: \<^verbatim>\<open>int / int\<close> is a \<^verbatim>\<open>float\<close>; a zero divisor raises.\<close>

definition float_truediv :: "real \<Rightarrow> real \<Rightarrow> error + val" where
  "float_truediv a b = (if b = 0 then Inl ZeroDivisionError else Inr (PyFloat (a / b)))"

definition int_truediv :: "int \<Rightarrow> int \<Rightarrow> error + val" where
  "int_truediv a b = float_truediv (of_int a) (of_int b)"

definition complex_truediv :: "complex \<Rightarrow> complex \<Rightarrow> error + val" where
  "complex_truediv a b = (if b = 0 then Inl ZeroDivisionError else Inr (PyComplex (a / b)))"

text \<open>
  A real whose magnitude reaches \<open>2^1024 - 2^970\<close> rounds to an infinity in the
  binary64 format (round to nearest, ties to even).
\<close>

definition float_overflow :: "real \<Rightarrow> bool" where
  "float_overflow r = (2 ^ 1024 - 2 ^ 970 \<le> \<bar>r\<bar>)"

text \<open>
  Powers. \<^verbatim>\<open>complex ** complex\<close> is computed in polar form; \<^verbatim>\<open>float ** float\<close>
  with a negative base and an exponent that is not an integer is handed to the complex
  power and returns a \<^verbatim>\<open>complex\<close> (Python 3), it does not raise; zero to a negative
  power raises \<^verbatim>\<open>ZeroDivisionError\<close>; a power that overflows raises
  \<^verbatim>\<open>OverflowError\<close>; \<^verbatim>\<open>int ** int\<close> with a negative exponent is the power of the
  two floats.
\<close>

definition complex_pow :: "complex \<Rightarrow> complex \<Rightarrow> error + val" where
  "complex_pow a b =
     (if b = 0 then Inr (PyComplex 1)
      else if a = 0 then
        (if Im b = 0 \<and> 0 \<le> Re b then Inr (PyComplex 0) else Inl ZeroDivisionError)
      else
        (let vabs = cmod a;
             phi = Arg a;
             len0 = vabs powr Re b;
             len = len0 / exp (phi * Im b);
             phase = phi * Re b + Im b * ln vabs
         in if float_overflow len0 then Inl OverflowError
            else if float_overflow len then Inl OverflowError
            else Inr (PyComplex (Complex (len * cos phase) (len * sin phase)))))"

definition float_pow :: "real \<Rightarrow> real \<Rightarrow> error + val" where
  "float_pow x y =
     (if y = 0 then Inr (PyFloat 1)
      else if x = 0 then (if y < 0 then Inl ZeroDivisionError else Inr (PyFloat 0))
      else if x < 0 then
        (if y = of_int \<lfloor>y\<rfloor> then
           (if float_overflow (x powi \<lfloor>y\<rfloor>) then Inl OverflowError
            else Inr (PyFloat (x powi \<lfloor>y\<rfloor>)))
         else complex_pow (of_real x) (of_real y))
      else if float_overflow (x powr y) then Inl OverflowError
      else Inr (PyFloat (x powr y)))"

definition int_pow :: "int \<Rightarrow> int \<Rightarrow> error + val" where
  "int_pow a b =
     (if 0 \<le> b then Inr (PyInt (a ^ nat b)) else float_pow (of_int a) (of_int b))"

section \<open>The operators of the classes\<close>

text \<open>
  \<^verbatim>\<open>Number\<close> and \<^verbatim>\<open>Symbol\<close> override \<^verbatim>\<open>__add__\<close>, \<^verbatim>\<open>__truediv__\<close> and
  \<^verbatim>\<open>__pow__\<close> and build a node from \<^verbatim>\<open>self\<close> and \<^verbatim>\<open>other\<close>, whatever
  \<^verbatim>\<open>other\<close> is. The four other classes inherit the methods of \<^verbatim>\<open>AlgebraicObject\<close>,
  whose body is \<^verbatim>\<open>...\<close>: they return \<^verbatim>\<open>None\<close>. No class defines \<^verbatim>\<open>__iadd__\<close>, so
  \<^verbatim>\<open>x += y\<close> is \<^verbatim>\<open>x = x + y\<close>.
\<close>

fun py_add :: "val \<Rightarrow> val \<Rightarrow> error + val" where
  "py_add (Number v) other = Inr (SumType [Number v, other])"
| "py_add (Symbol i n) other = Inr (SumType [Symbol i n, other])"
| "py_add (SumType vs) other = Inr PyNone"
| "py_add (ProductType vs) other = Inr PyNone"
| "py_add (QuotientType a b) other = Inr PyNone"
| "py_add (PowType a b) other = Inr PyNone"
| "py_add x y = arith int_add float_add complex_add x y"

fun py_truediv :: "val \<Rightarrow> val \<Rightarrow> error + val" where
  "py_truediv (Number v) other = Inr (QuotientType (Number v) other)"
| "py_truediv (Symbol i n) other = Inr (QuotientType (Symbol i n) other)"
| "py_truediv (SumType vs) other = Inr PyNone"
| "py_truediv (ProductType vs) other = Inr PyNone"
| "py_truediv (QuotientType a b) other = Inr PyNone"
| "py_truediv (PowType a b) other = Inr PyNone"
| "py_truediv x y = arith int_truediv float_truediv complex_truediv x y"

fun py_pow :: "val \<Rightarrow> val \<Rightarrow> error + val" where
  "py_pow (Number v) other = Inr (PowType (Number v) other)"
| "py_pow (Symbol i n) other = Inr (PowType (Symbol i n) other)"
| "py_pow (SumType vs) other = Inr PyNone"
| "py_pow (ProductType vs) other = Inr PyNone"
| "py_pow (QuotientType a b) other = Inr PyNone"
| "py_pow (PowType a b) other = Inr PyNone"
| "py_pow x y = arith int_pow float_pow complex_pow x y"

section \<open>evaluate\<close>

text \<open>
  \<^verbatim>\<open>symbols\<close> maps a name to its float. \<^verbatim>\<open>Number.evaluate\<close> is \<^verbatim>\<open>return self\<close>;
  \<^verbatim>\<open>Symbol.evaluate\<close> is \<^verbatim>\<open>symbols[self.name]\<close>. \<^verbatim>\<open>SumType.evaluate\<close> and
  \<^verbatim>\<open>ProductType.evaluate\<close> have the same body,
  \<^verbatim>\<open>value = 0; for value in self.values: value += value.evaluate(symbols); return value\<close>,
  whose loop variable is the accumulator: \<open>evaluate_values\<close> is that loop, its second
  argument the current \<^verbatim>\<open>value\<close>. A value that is not an object has no method.
\<close>

fun evaluate :: "val \<Rightarrow> (pystr \<rightharpoonup> real) \<Rightarrow> error + val"
  and evaluate_values :: "val list \<Rightarrow> val \<Rightarrow> (pystr \<rightharpoonup> real) \<Rightarrow> error + val" where
  "evaluate (Number v) symbols = Inr (Number v)"
| "evaluate (Symbol i name) symbols =
     (case symbols name of None \<Rightarrow> Inl KeyError | Some x \<Rightarrow> Inr (PyFloat x))"
| "evaluate (SumType vs) symbols = evaluate_values vs (PyInt 0) symbols"
| "evaluate (ProductType vs) symbols = evaluate_values vs (PyInt 0) symbols"
| "evaluate (QuotientType a b) symbols =
     (case evaluate a symbols of Inl e \<Rightarrow> Inl e
      | Inr x \<Rightarrow> (case evaluate b symbols of Inl e \<Rightarrow> Inl e
          | Inr y \<Rightarrow> py_truediv x y))"
| "evaluate (PowType a b) symbols =
     (case evaluate a symbols of Inl e \<Rightarrow> Inl e
      | Inr x \<Rightarrow> (case evaluate b symbols of Inl e \<Rightarrow> Inl e
          | Inr y \<Rightarrow> py_pow x y))"
| "evaluate PyNone symbols = Inl AttributeError"
| "evaluate (PyInt n) symbols = Inl AttributeError"
| "evaluate (PyFloat x) symbols = Inl AttributeError"
| "evaluate (PyComplex z) symbols = Inl AttributeError"
| "evaluate_values [] value symbols = Inr value"
| "evaluate_values (v # vs) value symbols =
     (case evaluate v symbols of Inl e \<Rightarrow> Inl e
      | Inr r \<Rightarrow> (case py_add v r of Inl e \<Rightarrow> Inl e
          | Inr value' \<Rightarrow> evaluate_values vs value' symbols))"

section \<open>factor\<close>

text \<open>Each of the six classes defines \<^verbatim>\<open>factor\<close> as \<^verbatim>\<open>return self\<close>.\<close>

fun factor :: "val \<Rightarrow> error + val" where
  "factor (Number v) = Inr (Number v)"
| "factor (Symbol i name) = Inr (Symbol i name)"
| "factor (SumType vs) = Inr (SumType vs)"
| "factor (ProductType vs) = Inr (ProductType vs)"
| "factor (QuotientType a b) = Inr (QuotientType a b)"
| "factor (PowType a b) = Inr (PowType a b)"
| "factor v = Inl AttributeError"

section \<open>simplify\<close>

subsection \<open>Flattening\<close>

text \<open>
  \<^verbatim>\<open>new_combined_values = combined_values\<close> binds a second name to the same list, so
  the \<^verbatim>\<open>for\<close> loop appends to the list it iterates over and visits what it appended:
  \<open>flat_pass i xs\<close> is the loop with its iterator at index \<open>i\<close>. A \<^verbatim>\<open>SumType\<close> that
  was visited stays in the list.
\<close>

text \<open>
  The appended values are the children of a visited \<^verbatim>\<open>SumType\<close>, which are smaller
  than it, so the pass ends: what is left to visit, weighed by the size of its elements,
  decreases at every step.
\<close>

lemma size_list_drop_nth:
  "i < length xs \<Longrightarrow> size_list f (drop i xs) = Suc (f (xs ! i) + size_list f (drop (Suc i) xs))"
  by (simp flip: Cons_nth_drop_Suc)

function flat_pass :: "nat \<Rightarrow> val list \<Rightarrow> val list" where
  "flat_pass i combined_values =
     (if i < length combined_values then
        (case combined_values ! i of
           SumType vs \<Rightarrow> flat_pass (Suc i) (combined_values @ vs)
         | _ \<Rightarrow> flat_pass (Suc i) combined_values)
      else combined_values)"
  by pat_completeness auto
termination
  by (relation "measure (\<lambda>(i, xs). size_list size (drop i xs))")
     (simp_all add: size_list_drop_nth)

declare flat_pass.simps [simp del]

text \<open>
  The \<^verbatim>\<open>while True\<close> loop: one pass, then \<^verbatim>\<open>break\<close> when no element of the list is
  a \<^verbatim>\<open>SumType\<close>. Nothing bounds the number of rounds, so the result is an option:
  \<open>None\<close> is the loop that never leaves.
\<close>

definition no_sum_types :: "val list \<Rightarrow> bool" where
  "no_sum_types combined_values = list_all (\<lambda>value. \<not> is_SumType value) combined_values"

partial_function (option) flatten_loop :: "val list \<Rightarrow> val list option" where
  "flatten_loop combined_values =
     (let new_combined_values = flat_pass 0 combined_values
      in if no_sum_types new_combined_values then Some new_combined_values
         else flatten_loop new_combined_values)"

subsection \<open>Like terms\<close>

text \<open>
  \<^verbatim>\<open>like_terms\<close> is a dictionary whose keys are the class \<^verbatim>\<open>Number\<close> and
  \<^verbatim>\<open>Symbol\<close> objects. \<open>attr_value\<close> and \<open>attr_values\<close> read the attributes
  \<^verbatim>\<open>.value\<close> (of a \<^verbatim>\<open>Number\<close>) and \<^verbatim>\<open>.values\<close> (of a \<^verbatim>\<open>SumType\<close> or a
  \<^verbatim>\<open>ProductType\<close>); any other value has no such attribute.
\<close>

datatype key = NumberClass | SymbolObject nat

fun attr_value :: "val \<Rightarrow> error + val" where
  "attr_value (Number v) = Inr v"
| "attr_value v = Inl AttributeError"

fun attr_values :: "val \<Rightarrow> error + val list" where
  "attr_values (SumType vs) = Inr vs"
| "attr_values (ProductType vs) = Inr vs"
| "attr_values v = Inl AttributeError"

text \<open>One round of the \<^verbatim>\<open>for value in combined_values\<close> loop that groups like terms.\<close>

fun like_term :: "(key \<rightharpoonup> val) \<Rightarrow> val \<Rightarrow> error + (key \<rightharpoonup> val)" where
  "like_term like_terms (Number x) =
     (case like_terms NumberClass of None \<Rightarrow> Inl KeyError
      | Some n \<Rightarrow> (case attr_value n of Inl e \<Rightarrow> Inl e
          | Inr a \<Rightarrow> (case py_add a x of Inl e \<Rightarrow> Inl e
              | Inr s \<Rightarrow> Inr (like_terms(NumberClass \<mapsto> Number s)))))"
| "like_term like_terms (Symbol i name) =
     (case like_terms (SymbolObject i) of
        None \<Rightarrow> Inr (like_terms(SymbolObject i \<mapsto> ProductType [PyInt 1, Symbol i name]))
      | Some p \<Rightarrow> (case attr_values p of Inl e \<Rightarrow> Inl e
          | Inr [] \<Rightarrow> Inl IndexError
          | Inr (first # rest) \<Rightarrow> (case attr_value first of Inl e \<Rightarrow> Inl e
              | Inr c \<Rightarrow> (case py_add c (PyInt 1) of Inl e \<Rightarrow> Inl e
                  | Inr s \<Rightarrow>
                      Inr (like_terms(SymbolObject i \<mapsto> ProductType [s, Symbol i name]))))))"
| "like_term like_terms v = Inr like_terms"

fun group_like_terms :: "(key \<rightharpoonup> val) \<Rightarrow> val list \<Rightarrow> error + (key \<rightharpoonup> val)" where
  "group_like_terms like_terms [] = Inr like_terms"
| "group_like_terms like_terms (value # combined_values) =
     (case like_term like_terms value of Inl e \<Rightarrow> Inl e
      | Inr like_terms' \<Rightarrow> group_like_terms like_terms' combined_values)"

subsection \<open>The method\<close>

text \<open>
  \<^verbatim>\<open>Number.simplify\<close> and \<^verbatim>\<open>Symbol.simplify\<close> are \<^verbatim>\<open>return self\<close>.
  \<^verbatim>\<open>SumType.simplify\<close> simplifies its values in order, flattens, groups like terms and
  ends without a \<^verbatim>\<open>return\<close>; \<^verbatim>\<open>ProductType.simplify\<close> simplifies its values and
  ends; the bodies of \<^verbatim>\<open>QuotientType.simplify\<close> and \<^verbatim>\<open>PowType.simplify\<close> are a
  docstring and a comment. A Python function that ends without \<^verbatim>\<open>return\<close> returns
  \<^verbatim>\<open>None\<close>. The outer option is \<open>None\<close> when the call does not return.
\<close>

fun simplify :: "val \<Rightarrow> (error + val) option"
  and simplify_values :: "val list \<Rightarrow> (error + val list) option" where
  "simplify (Number v) = Some (Inr (Number v))"
| "simplify (Symbol i name) = Some (Inr (Symbol i name))"
| "simplify (SumType vs) =
     (case simplify_values vs of None \<Rightarrow> None
      | Some (Inl e) \<Rightarrow> Some (Inl e)
      | Some (Inr simplified_values) \<Rightarrow>
          (case flatten_loop simplified_values of None \<Rightarrow> None
           | Some combined_values \<Rightarrow>
               (case group_like_terms [NumberClass \<mapsto> Number (PyInt 0)] combined_values of
                  Inl e \<Rightarrow> Some (Inl e)
                | Inr like_terms \<Rightarrow> Some (Inr PyNone))))"
| "simplify (ProductType vs) =
     (case simplify_values vs of None \<Rightarrow> None
      | Some (Inl e) \<Rightarrow> Some (Inl e)
      | Some (Inr simplified_values) \<Rightarrow> Some (Inr PyNone))"
| "simplify (QuotientType a b) = Some (Inr PyNone)"
| "simplify (PowType a b) = Some (Inr PyNone)"
| "simplify PyNone = Some (Inl AttributeError)"
| "simplify (PyInt n) = Some (Inl AttributeError)"
| "simplify (PyFloat x) = Some (Inl AttributeError)"
| "simplify (PyComplex z) = Some (Inl AttributeError)"
| "simplify_values [] = Some (Inr [])"
| "simplify_values (value # vs) =
     (case simplify value of None \<Rightarrow> None
      | Some (Inl e) \<Rightarrow> Some (Inl e)
      | Some (Inr r) \<Rightarrow>
          (case simplify_values vs of None \<Rightarrow> None
           | Some (Inl e) \<Rightarrow> Some (Inl e)
           | Some (Inr rs) \<Rightarrow> Some (Inr (r # rs))))"

section \<open>Constructing a Symbol\<close>

text \<open>
  \<^verbatim>\<open>ascii_letters\<close> is the constant of Python's \<^verbatim>\<open>string\<close> module; \<^verbatim>\<open>name in
  ascii_letters\<close> is the substring test of \<^verbatim>\<open>str\<close>. The first argument of
  \<open>Symbol_init\<close> is the identity of the object under construction.
\<close>

definition ascii_letters :: pystr where
  "ascii_letters = str ''abcdefghijklmnopqrstuvwxyzABCDEFGHIJKLMNOPQRSTUVWXYZ''"

fun str_contains :: "pystr \<Rightarrow> pystr \<Rightarrow> bool" where
  "str_contains sub [] = (sub = [])"
| "str_contains sub (c # s) = (take (length sub) (c # s) = sub \<or> str_contains sub s)"

definition Symbol_init :: "nat \<Rightarrow> pystr \<Rightarrow> error + val" where
  "Symbol_init self name =
     (if length name \<noteq> 1 \<or> \<not> str_contains name ascii_letters then Inl InvalidSymbolName
      else Inr (Symbol self name))"

text \<open>The letters a to z and A to Z, as ranges of code points.\<close>

definition is_ascii_letter :: "nat \<Rightarrow> bool" where
  "is_ascii_letter c =
     (of_char CHR ''a'' \<le> c \<and> c \<le> of_char CHR ''z'' \<or>
      of_char CHR ''A'' \<le> c \<and> c \<le> of_char CHR ''Z'')"

section \<open>Properties of simplify\<close>

subsection \<open>What simplify returns\<close>

lemma simplify_result:
  "simplify e = Some (Inr r) \<Longrightarrow> r = PyNone \<or> r = e"
  by (cases e) (auto split: option.splits sum.splits)

lemma simplify_composite:
  "simplify e = Some (Inr r) \<Longrightarrow>
     (\<exists>v. e = Number v) \<or> (\<exists>i name. e = Symbol i name) \<or> r = PyNone"
  by (cases e) (auto split: option.splits sum.splits)

lemma simplify_not_SumType:
  "simplify v = Some (Inr r) \<Longrightarrow> \<not> is_SumType r"
  by (cases v) (auto split: option.splits sum.splits)

lemma simplify_values_no_sum_types:
  "simplify_values vs = Some (Inr rs) \<Longrightarrow> no_sum_types rs"
proof (induction vs arbitrary: rs)
  case Nil
  then show ?case by (simp add: no_sum_types_def)
next
  case (Cons v vs)
  then show ?case
    by (auto simp: no_sum_types_def split: option.splits sum.splits
        dest: simplify_not_SumType)
qed

subsection \<open>The flattening loop\<close>

text \<open>On a list without a \<^verbatim>\<open>SumType\<close> the pass appends nothing.\<close>

lemma flat_pass_no_sum_types:
  "no_sum_types xs \<Longrightarrow> flat_pass i xs = xs"
proof (induction i xs rule: flat_pass.induct)
  case (1 i xs)
  show ?case
  proof (cases "i < length xs")
    case True
    with "1.prems" have "\<not> is_SumType (xs ! i)"
      by (simp add: no_sum_types_def list_all_length)
    with True "1.IH" "1.prems" show ?thesis
      by (subst flat_pass.simps) (cases "xs ! i"; simp)
  next
    case False
    then show ?thesis by (subst flat_pass.simps) simp
  qed
qed

lemma flatten_loop_no_sum_types:
  "no_sum_types xs \<Longrightarrow> flatten_loop xs = Some xs"
  by (subst flatten_loop.simps) (simp add: flat_pass_no_sum_types)

text \<open>
  The pass only appends: the list it started from is a prefix of its result. So a
  \<^verbatim>\<open>SumType\<close> in the list is still there after the pass, the test that ends the
  \<^verbatim>\<open>while\<close> loop fails again, and a list that holds a \<^verbatim>\<open>SumType\<close> keeps the loop
  running forever.
\<close>

lemma flat_pass_prefix: "take (length xs) (flat_pass i xs) = xs"
proof (induction i xs rule: flat_pass.induct)
  case (1 i xs)
  show ?case
  proof (cases "i < length xs")
    case True
    show ?thesis
    proof (cases "xs ! i")
      case (SumType vs)
      with True "1.IH"(7)
      have "take (length (xs @ vs)) (flat_pass (Suc i) (xs @ vs)) = xs @ vs"
        by simp
      then have "take (length xs) (take (length (xs @ vs)) (flat_pass (Suc i) (xs @ vs)))
          = take (length xs) (xs @ vs)"
        by simp
      then have "take (length xs) (flat_pass (Suc i) (xs @ vs)) = xs"
        by (simp add: min_def)
      with True SumType show ?thesis by (subst flat_pass.simps) simp
    qed (use True "1.IH" in \<open>subst flat_pass.simps, simp\<close>)+
  next
    case False
    then show ?thesis by (subst flat_pass.simps) simp
  qed
qed

lemma no_sum_types_flat_pass:
  assumes "no_sum_types (flat_pass i xs)"
  shows "no_sum_types xs"
proof -
  have "set (take (length xs) (flat_pass i xs)) \<subseteq> set (flat_pass i xs)"
    by (rule set_take_subset)
  then have "set xs \<subseteq> set (flat_pass i xs)"
    by (simp add: flat_pass_prefix)
  with assms show ?thesis
    by (auto simp: no_sum_types_def list_all_iff)
qed

lemma flatten_loop_Some_no_sum_types:
  assumes "flatten_loop xs = Some ys"
  shows "no_sum_types xs"
  using assms
proof (induction xs ys rule: flatten_loop.raw_induct [rotated, consumes 1, case_names step])
  case (step loop xs ys)
  show ?case
  proof (cases "no_sum_types (flat_pass 0 xs)")
    case True
    then show ?thesis by (rule no_sum_types_flat_pass)
  next
    case False
    with step(2) have "loop (flat_pass 0 xs) = Some ys"
      by (simp add: Let_def)
    then have "no_sum_types (flat_pass 0 xs)"
      by (rule step(1))
    with False show ?thesis by simp
  qed
qed

lemma flatten_loop_diverges:
  "\<not> no_sum_types xs \<Longrightarrow> flatten_loop xs = None"
  using flatten_loop_Some_no_sum_types by (cases "flatten_loop xs") auto

lemma flatten_loop_nested_sum: "flatten_loop [SumType []] = None"
  by (rule flatten_loop_diverges) (simp add: no_sum_types_def)

lemma flatten_loop_cases:
  "flatten_loop xs = (if no_sum_types xs then Some xs else None)"
  by (simp add: flatten_loop_no_sum_types flatten_loop_diverges)

subsection \<open>Termination\<close>

text \<open>
  A call of \<^verbatim>\<open>simplify\<close> returns or raises, whatever its object. Its loop never
  meets a \<^verbatim>\<open>SumType\<close>: a simplified value is a \<^verbatim>\<open>Number\<close>, a \<^verbatim>\<open>Symbol\<close> or
  \<^verbatim>\<open>None\<close>, and a nested sum has become \<^verbatim>\<open>None\<close>.
\<close>

lemma simplify_returns:
  "\<exists>r. simplify e = Some r" and "\<exists>rs. simplify_values vs = Some rs"
proof (induction e and vs rule: simplify_simplify_values.induct)
  case (3 vs)
  then show ?case
    by (auto simp: flatten_loop_no_sum_types dest!: simplify_values_no_sum_types
        split: option.splits sum.splits)
qed (auto split: option.splits sum.splits)


subsection \<open>Like terms\<close>

text \<open>
  The grouping of like terms only decides whether the call raises. A \<^verbatim>\<open>Symbol\<close>
  object met a second time finds \<^verbatim>\<open>ProductType([1, value])\<close> under its key and reads
  \<^verbatim>\<open>.value\<close> of the \<^verbatim>\<open>int\<close> 1, which raises \<^verbatim>\<open>AttributeError\<close>; two objects
  of the same name are two keys.
\<close>

lemma simplify_same_symbol_twice:
  "simplify (SumType [Symbol 0 (str ''x''), Symbol 0 (str ''x'')]) = Some (Inl AttributeError)"
proof -
  have "flatten_loop [Symbol 0 (str ''x''), Symbol 0 (str ''x'')]
      = Some [Symbol 0 (str ''x''), Symbol 0 (str ''x'')]"
    by (rule flatten_loop_no_sum_types) (simp add: no_sum_types_def)
  then show ?thesis by simp
qed

lemma simplify_two_symbols_same_name:
  "simplify (SumType [Symbol 0 (str ''x''), Symbol 1 (str ''x'')]) = Some (Inr PyNone)"
proof -
  have "flatten_loop [Symbol 0 (str ''x''), Symbol 1 (str ''x'')]
      = Some [Symbol 0 (str ''x''), Symbol 1 (str ''x'')]"
    by (rule flatten_loop_no_sum_types) (simp add: no_sum_types_def)
  then show ?thesis by simp
qed

subsection \<open>Idempotence and value preservation\<close>

text \<open>
  Claim C1: for every expression \<open>e\<close>, \<^verbatim>\<open>simplify(simplify(e))\<close> equals
  \<^verbatim>\<open>simplify(e)\<close>, and \<^verbatim>\<open>simplify\<close> returns a canonical expression.

  The code does not do so. \<^verbatim>\<open>SumType.simplify\<close> is annotated to return an
  \<^verbatim>\<open>AlgebraicObject\<close> and ends without \<^verbatim>\<open>return\<close>: on the sum of the constants 1
  and 2 it returns \<^verbatim>\<open>None\<close>, which is no expression, and simplifying that result
  raises \<^verbatim>\<open>AttributeError\<close>. By \<open>simplify_composite\<close> the same holds for every sum,
  product, quotient and power whose simplification returns.
\<close>

theorem simplify_not_idempotent:
  "simplify (SumType [Number (PyFloat 1), Number (PyFloat 2)]) = Some (Inr PyNone) \<and>
   simplify PyNone = Some (Inl AttributeError)"
proof
  have "flatten_loop [Number (PyFloat 1), Number (PyFloat 2)]
      = Some [Number (PyFloat 1), Number (PyFloat 2)]"
    by (rule flatten_loop_no_sum_types) (simp add: no_sum_types_def)
  then show "simplify (SumType [Number (PyFloat 1), Number (PyFloat 2)]) = Some (Inr PyNone)"
    by (simp add: float_add_def)
next
  show "simplify PyNone = Some (Inl AttributeError)"
    by simp
qed

text \<open>
  Claim C2: for every expression \<open>e\<close> and bindings \<open>b\<close> that cover its free
  variables, \<^verbatim>\<open>evaluate(e, b)\<close>, \<^verbatim>\<open>evaluate(simplify(e), b)\<close> and
  \<^verbatim>\<open>evaluate(factor(e), b)\<close> are equal.

  \<^verbatim>\<open>factor\<close> returns its object, so the second equation holds. The first fails on the
  code: the empty sum evaluates to 0, its simplification is \<^verbatim>\<open>None\<close>, and evaluating
  \<^verbatim>\<open>None\<close> raises \<^verbatim>\<open>AttributeError\<close>.
\<close>

theorem simplify_loses_value:
  "evaluate (SumType []) Map.empty = Inr (PyInt 0) \<and>
   simplify (SumType []) = Some (Inr PyNone) \<and>
   evaluate PyNone Map.empty = Inl AttributeError \<and>
   factor (SumType []) = Inr (SumType [])"
proof -
  have "flatten_loop [] = Some []"
    by (rule flatten_loop_no_sum_types) (simp add: no_sum_types_def)
  then show ?thesis
    by simp
qed

section \<open>Properties of evaluate\<close>

text \<open>
  Claim C4: for every real \<open>c\<close> and every bindings map, evaluating the constant \<open>c\<close>
  returns the real number \<open>c\<close>.

  \<^verbatim>\<open>Number.evaluate\<close> is annotated to return a \<^verbatim>\<open>float\<close> and is \<^verbatim>\<open>return self\<close>:
  the result is the \<^verbatim>\<open>Number\<close> object, not its value.
\<close>

theorem Number_evaluate_returns_object:
  "evaluate (Number (PyFloat c)) symbols = Inr (Number (PyFloat c)) \<and>
   evaluate (Number (PyFloat c)) symbols \<noteq> Inr (PyFloat c)"
  by simp

subsection \<open>Sums and products\<close>

text \<open>
  The loop of \<^verbatim>\<open>SumType.evaluate\<close> and \<^verbatim>\<open>ProductType.evaluate\<close> rebinds its
  accumulator to each element: whatever the list, as soon as it is not empty the result
  is what \<^verbatim>\<open>+\<close> builds from the last element, a \<^verbatim>\<open>SumType\<close> object or \<^verbatim>\<open>None\<close>,
  never a number.
\<close>

lemma py_add_algebraic:
  "is_algebraic v \<Longrightarrow> \<exists>r. py_add v x = Inr r \<and> (r = PyNone \<or> is_SumType r)"
  by (cases v) simp_all

lemma evaluate_algebraic:
  "evaluate v symbols = Inr x \<Longrightarrow> is_algebraic v"
  by (cases v) auto

lemma evaluate_values_never_number:
  "vs \<noteq> [] \<Longrightarrow> evaluate_values vs acc symbols = Inr r \<Longrightarrow> r = PyNone \<or> is_SumType r"
proof (induction vs arbitrary: acc)
  case Nil
  then show ?case by simp
next
  case (Cons v vs)
  from Cons.prems(2) obtain x acc' where
    x: "evaluate v symbols = Inr x" and a: "py_add v x = Inr acc'"
    and rest: "evaluate_values vs acc' symbols = Inr r"
    by (auto split: sum.splits)
  from x have "is_algebraic v" by (rule evaluate_algebraic)
  with a have acc': "acc' = PyNone \<or> is_SumType acc'"
    using py_add_algebraic [of v x] by auto
  show ?case
  proof (cases vs)
    case Nil
    with rest acc' show ?thesis by simp
  next
    case (Cons w ws)
    then have "vs \<noteq> []" by simp
    then show ?thesis using rest by (rule Cons.IH)
  qed
qed

text \<open>
  Claim C5: evaluating a product returns the arithmetic product of its evaluated factors,
  and 1 for a product with no factor.

  The body of \<^verbatim>\<open>ProductType.evaluate\<close> is that of \<^verbatim>\<open>SumType.evaluate\<close>, with
  \<^verbatim>\<open>value = 0\<close> and \<^verbatim>\<open>+=\<close>: the empty product evaluates to 0, and the product of
  \<open>x = 2\<close> and \<open>y = 3\<close> to the object \<^verbatim>\<open>SumType([y, 3.0])\<close>, not to 6.
\<close>

theorem ProductType_evaluate_not_product:
  "evaluate (ProductType []) Map.empty = Inr (PyInt 0) \<and>
   evaluate (ProductType [Symbol 0 (str ''x''), Symbol 1 (str ''y'')])
     [str ''x'' \<mapsto> 2, str ''y'' \<mapsto> 3]
     = Inr (SumType [Symbol 1 (str ''y''), PyFloat 3])"
  by (simp add: str_def)

text \<open>
  Claim C6: evaluating a sum returns the arithmetic sum of its evaluated terms, and 0 for
  a sum with no term.

  The empty sum does evaluate to 0. A sum with terms does not evaluate to their sum: the
  loop variable of \<^verbatim>\<open>SumType.evaluate\<close> is its accumulator, and the sum of \<open>x = 1\<close>
  and \<open>y = 2\<close> evaluates to the object \<^verbatim>\<open>SumType([y, 2.0])\<close>, not to 3.
\<close>

theorem SumType_evaluate_not_sum:
  "evaluate (SumType []) symbols = Inr (PyInt 0) \<and>
   evaluate (SumType [Symbol 0 (str ''x''), Symbol 1 (str ''y'')])
     [str ''x'' \<mapsto> 1, str ''y'' \<mapsto> 2]
     = Inr (SumType [Symbol 1 (str ''y''), PyFloat 2])"
  by (simp add: str_def)

subsection \<open>Quotients\<close>

text \<open>
  When numerator and denominator evaluate to floats, the quotient is their division and
  a zero denominator raises \<^verbatim>\<open>ZeroDivisionError\<close>.
\<close>

lemma QuotientType_evaluate_floats:
  assumes "evaluate a symbols = Inr (PyFloat x)"
    and "evaluate b symbols = Inr (PyFloat y)"
  shows "evaluate (QuotientType a b) symbols =
     (if y = 0 then Inl ZeroDivisionError else Inr (PyFloat (x / y)))"
  using assms by (simp add: float_truediv_def)

text \<open>
  Claim C7: evaluating a quotient whose denominator evaluates to 0 fails with a division
  by zero, and otherwise returns the numerator divided by the denominator; in particular
  the quotient of the constants 1 and 0 fails.

  On constants the code does neither: \<^verbatim>\<open>Number.evaluate\<close> returns the objects, and
  \<^verbatim>\<open>/\<close> on a \<^verbatim>\<open>Number\<close> builds a \<^verbatim>\<open>QuotientType\<close>. The quotient of the constants 1
  and 0 evaluates to itself, and the quotient of 6 and 3 to itself, not to 2.
\<close>

theorem QuotientType_evaluate_constants:
  "evaluate (QuotientType (Number (PyFloat 1)) (Number (PyFloat 0))) Map.empty
     = Inr (QuotientType (Number (PyFloat 1)) (Number (PyFloat 0))) \<and>
   evaluate (QuotientType (Number (PyFloat 6)) (Number (PyFloat 3))) Map.empty
     = Inr (QuotientType (Number (PyFloat 6)) (Number (PyFloat 3)))"
  by simp

subsection \<open>Powers\<close>

lemma Arg_negative_real: "x < 0 \<Longrightarrow> Arg (complex_of_real x) = pi"
  by (rule cis_Arg_unique) (simp_all add: sgn_eq complex_eq_iff)

lemma no_float_overflow_one: "\<not> float_overflow 1"
proof -
  have "(2::real) ^ 970 * 2 \<le> 2 ^ 970 * 2 ^ 54"
    by (intro mult_left_mono) simp_all
  then have "(2::real) ^ 970 + 2 ^ 970 \<le> 2 ^ 1024"
    by (simp flip: power_add)
  moreover have "(1::real) \<le> 2 ^ 970"
    by simp
  ultimately show ?thesis
    by (simp add: float_overflow_def)
qed

text \<open>
  When the two operands evaluate to floats, a negative base with an exponent that is not
  an integer gives neither an error nor a float: with \<open>x = -1\<close> and \<open>y = 1/2\<close> the
  result is a complex number.
\<close>

lemma PowType_evaluate_negative_base:
  "\<exists>z. evaluate (PowType (Symbol 0 (str ''x'')) (Symbol 1 (str ''y'')))
     [str ''x'' \<mapsto> - 1, str ''y'' \<mapsto> 1 / 2] = Inr (PyComplex z)"
proof -
  have "Arg (- 1) = pi"
    using Arg_negative_real [of "- 1"] by simp
  then show ?thesis
    by (simp add: str_def float_pow_def complex_pow_def no_float_overflow_one)
qed

text \<open>
  Claim C8: evaluating a power whose base evaluates to a negative number and whose
  exponent evaluates to a non-integer fails with a domain error, and otherwise returns
  the base raised to the exponent; in particular the power of the constants \<open>-1\<close> and
  \<open>0.5\<close> fails.

  On constants the code does neither: \<^verbatim>\<open>Number.evaluate\<close> returns the objects, and
  \<^verbatim>\<open>**\<close> on a \<^verbatim>\<open>Number\<close> builds a \<^verbatim>\<open>PowType\<close>. The power of the constants
  \<open>-1\<close> and \<open>0.5\<close> evaluates to itself and raises nothing, and the power of 2 and 3
  evaluates to itself, not to 8.
\<close>

theorem PowType_evaluate_constants:
  "evaluate (PowType (Number (PyFloat (- 1))) (Number (PyFloat (1 / 2)))) Map.empty
     = Inr (PowType (Number (PyFloat (- 1))) (Number (PyFloat (1 / 2)))) \<and>
   evaluate (PowType (Number (PyFloat 2)) (Number (PyFloat 3))) Map.empty
     = Inr (PowType (Number (PyFloat 2)) (Number (PyFloat 3)))"
  by simp

section \<open>Properties of the Symbol constructor\<close>

lemma str_contains_single: "str_contains [c] s = (c \<in> set s)"
  by (induction s) auto

lemma ascii_letters_upt: "ascii_letters = [97..<123] @ [65..<91]"
  by (simp add: ascii_letters_def str_def)

lemma set_ascii_letters: "(c \<in> set ascii_letters) = is_ascii_letter c"
  unfolding ascii_letters_upt
  by (auto simp: is_ascii_letter_def simp del: upt_rec_numeral)

lemma length_one: "(length name = Suc 0) = (\<exists>c. name = [c])"
  by (cases name) auto

lemma Symbol_init_cases:
  "Symbol_init self name =
     (if (\<exists>c. name = [c] \<and> is_ascii_letter c) then Inr (Symbol self name)
      else Inl InvalidSymbolName)"
  by (auto simp: Symbol_init_def length_one str_contains_single set_ascii_letters)

text \<open>
  Claim C9: constructing a variable fails with \<^verbatim>\<open>InvalidSymbolName\<close> if and only if
  the name is not exactly one letter of a to z or A to Z, and succeeds with such a letter;
  in particular the names \<^verbatim>\<open>xy\<close> and \<^verbatim>\<open>1\<close> fail.
\<close>

theorem Symbol_init_letter:
  "(Symbol_init self name = Inl InvalidSymbolName) = (\<not> (\<exists>c. name = [c] \<and> is_ascii_letter c)) \<and>
   ((\<exists>c. name = [c] \<and> is_ascii_letter c) \<longrightarrow> Symbol_init self name = Inr (Symbol self name)) \<and>
   Symbol_init self (str ''xy'') = Inl InvalidSymbolName \<and>
   Symbol_init self (str ''1'') = Inl InvalidSymbolName"
proof (intro conjI)
  show "(Symbol_init self name = Inl InvalidSymbolName)
      = (\<not> (\<exists>c. name = [c] \<and> is_ascii_letter c))"
    by (simp add: Symbol_init_cases)
  show "(\<exists>c. name = [c] \<and> is_ascii_letter c) \<longrightarrow> Symbol_init self name = Inr (Symbol self name)"
    by (simp add: Symbol_init_cases)
  show "Symbol_init self (str ''xy'') = Inl InvalidSymbolName"
    by (simp add: Symbol_init_cases str_def)
  show "Symbol_init self (str ''1'') = Inl InvalidSymbolName"
    by (simp add: Symbol_init_cases str_def is_ascii_letter_def)
qed

theorem Symbol_init_letter_witness:
  "is_ascii_letter (of_char CHR ''x'') \<and>
   Symbol_init 7 (str ''x'') = Inr (Symbol 7 (str ''x''))"
proof -
  have letter: "is_ascii_letter (of_char CHR ''x'')"
    by (simp add: is_ascii_letter_def)
  then have "\<exists>c. str ''x'' = [c] \<and> is_ascii_letter c"
    by (simp add: str_def)
  with Symbol_init_letter [of 7 "str ''x''"]
  have "Symbol_init 7 (str ''x'') = Inr (Symbol 7 (str ''x''))"
    by blast
  with letter show ?thesis ..
qed

section \<open>Properties of factor\<close>

text \<open>
  Claim C10: for every expression of any of the six kinds, \<^verbatim>\<open>factor\<close> returns the
  expression itself, unchanged: no common factor is extracted from a sum and no operand
  is visited.
\<close>

theorem factor_returns_self: "is_algebraic e \<Longrightarrow> factor e = Inr e"
  by (cases e) simp_all

theorem factor_returns_self_witness:
  "is_algebraic (SumType [ProductType [Number (PyFloat 2), Symbol 0 (str ''x'')],
                          ProductType [Number (PyFloat 4), Symbol 1 (str ''y'')]]) \<and>
   factor (SumType [ProductType [Number (PyFloat 2), Symbol 0 (str ''x'')],
                    ProductType [Number (PyFloat 4), Symbol 1 (str ''y'')]])
     = Inr (SumType [ProductType [Number (PyFloat 2), Symbol 0 (str ''x'')],
                     ProductType [Number (PyFloat 4), Symbol 1 (str ''y'')]])"
proof -
  have h: "is_algebraic (SumType [ProductType [Number (PyFloat 2), Symbol 0 (str ''x'')],
                                  ProductType [Number (PyFloat 4), Symbol 1 (str ''y'')]])"
    by simp
  from h factor_returns_self [OF h] show ?thesis ..
qed

end
